theory Spec2Isabelle
  imports Main "HOL-Library.Word" "HOL-Library.AList"
begin

section \<open>Python values\<close>

text \<open>
  A Python \<^verbatim>\<open>bytes\<close> object is a list of 8-bit characters. A Python \<^verbatim>\<open>str\<close> is kept
  as an opaque text: the source only tests it for emptiness, concatenates it, uses it as a
  dictionary key and hands it to library functions.
\<close>

type_synonym bytes = string
type_synonym pystr = string

text \<open>
  The values \<^verbatim>\<open>json.loads\<close> produces: \<^verbatim>\<open>None\<close>, \<^verbatim>\<open>bool\<close>, \<^verbatim>\<open>int\<close>, \<^verbatim>\<open>float\<close> (its
  IEEE 754 bit pattern), \<^verbatim>\<open>str\<close>, \<^verbatim>\<open>list\<close> and \<^verbatim>\<open>dict\<close> (in insertion order).
  \<open>JNull\<close> is Python's \<^verbatim>\<open>None\<close>: the source uses it both for JSON \<^verbatim>\<open>null\<close> and for
  "nothing there".
\<close>

datatype json =
    JNull
  | JBool bool
  | JInt int
  | JFloat "64 word"
  | JString pystr
  | JArray "json list"
  | JObject "(pystr \<times> json) list"

text \<open>Python's truth value of an object, as tested by \<^verbatim>\<open>if x:\<close> and \<^verbatim>\<open>x or y\<close>.\<close>

fun truthy :: "json \<Rightarrow> bool" where
  "truthy JNull = False"
| "truthy (JBool b) = b"
| "truthy (JInt i) = (i \<noteq> 0)"
| "truthy (JFloat w) = (take_bit 63 w \<noteq> 0)"
| "truthy (JString s) = (s \<noteq> [])"
| "truthy (JArray xs) = (xs \<noteq> [])"
| "truthy (JObject kvs) = (kvs \<noteq> [])"

text \<open>\<^verbatim>\<open>type(x).__name__\<close>, as it appears in the message of an \<^verbatim>\<open>AttributeError\<close>.\<close>

fun type_name :: "json \<Rightarrow> pystr" where
  "type_name JNull = ''NoneType''"
| "type_name (JBool b) = ''bool''"
| "type_name (JInt i) = ''int''"
| "type_name (JFloat w) = ''float''"
| "type_name (JString s) = ''str''"
| "type_name (JArray xs) = ''list''"
| "type_name (JObject kvs) = ''dict''"

text \<open>The exceptions the source can meet, each with its message (\<^verbatim>\<open>str(e)\<close>).\<close>

datatype exn =
    ValueError pystr
  | UnicodeDecodeError pystr
  | JSONDecodeError pystr
  | StructError pystr
  | AttributeError pystr

fun exn_str :: "exn \<Rightarrow> pystr" where
  "exn_str (ValueError m) = m"
| "exn_str (UnicodeDecodeError m) = m"
| "exn_str (JSONDecodeError m) = m"
| "exn_str (StructError m) = m"
| "exn_str (AttributeError m) = m"

text \<open>
  The standard-library functions the source calls are parameters of the model:
  \<^item> \<open>json_loads\<close> is \<^verbatim>\<open>json.loads\<close>; \<open>Inl m\<close> is a \<^verbatim>\<open>json.JSONDecodeError\<close> with message \<open>m\<close>;
  \<^item> \<open>json_dumps\<close> is \<^verbatim>\<open>json.dumps\<close>;
  \<^item> \<open>utf8_decode\<close> is \<^verbatim>\<open>bytes.decode('utf-8')\<close>; \<open>Inl m\<close> is a \<^verbatim>\<open>UnicodeDecodeError\<close>;
  \<^item> \<open>utf8_encode\<close> is \<^verbatim>\<open>str.encode()\<close>;
  \<^item> \<open>int_of_str\<close> is \<^verbatim>\<open>int(s)\<close> on a string; \<open>Inl m\<close> is a \<^verbatim>\<open>ValueError\<close>.
\<close>

record pylib =
  json_loads :: "pystr \<Rightarrow> pystr + json"
  json_dumps :: "json \<Rightarrow> pystr"
  utf8_decode :: "bytes \<Rightarrow> pystr + pystr"
  utf8_encode :: "pystr \<Rightarrow> bytes"
  int_of_str :: "pystr \<Rightarrow> pystr + int"

text \<open>\<^verbatim>\<open>str(n)\<close> for a non-negative integer: its decimal digits.\<close>

function str_nat :: "nat \<Rightarrow> pystr" where
  "str_nat n =
     (if n < 10 then [char_of (48 + n)]
      else str_nat (n div 10) @ [char_of (48 + n mod 10)])"
  by pat_completeness auto
termination
  by (relation "measure id") auto

declare str_nat.simps [simp del]

section \<open>struct and byte streams\<close>

text \<open>The \<open>k\<close> low bytes of \<open>n\<close>, least significant first, and the number they stand for.\<close>

fun le_bytes :: "nat \<Rightarrow> nat \<Rightarrow> bytes" where
  "le_bytes 0 n = []"
| "le_bytes (Suc k) n = char_of (n mod 256) # le_bytes k (n div 256)"

fun le_value :: "bytes \<Rightarrow> nat" where
  "le_value [] = 0"
| "le_value (b # bs) = of_char b + 256 * le_value bs"

text \<open>
  \<^verbatim>\<open>struct.pack('<I', n)\<close> for \<open>n = len(...)\<close>: four bytes, or \<^verbatim>\<open>struct.error\<close> when
  \<open>n\<close> does not fit an unsigned 32-bit integer.
\<close>

definition struct_pack_I :: "nat \<Rightarrow> exn + bytes" where
  "struct_pack_I n =
     (if n < 2 ^ 32 then Inr (le_bytes 4 n)
      else Inl (StructError
             ([CHR 0x27] @ ''I'' @ [CHR 0x27] @ '' format requires 0 <= number <= 4294967295'')))"

text \<open>\<^verbatim>\<open>struct.unpack('<I', b)[0]\<close>: \<^verbatim>\<open>struct.error\<close> unless \<open>b\<close> has exactly four bytes.\<close>

definition struct_unpack_I :: "bytes \<Rightarrow> exn + nat" where
  "struct_unpack_I b =
     (if length b = 4 then Inr (le_value b)
      else Inl (StructError ''unpack requires a buffer of 4 bytes''))"

text \<open>
  \<^verbatim>\<open>stream.read(n)\<close> on a buffered binary stream whose remaining content, up to its end,
  is \<open>s\<close>: the bytes returned and the bytes left. It returns fewer than \<open>n\<close> bytes only at
  the end of the stream; a negative \<open>n\<close> reads everything.
\<close>

definition stream_read :: "int \<Rightarrow> bytes \<Rightarrow> bytes \<times> bytes" where
  "stream_read n s = (if n < 0 then (s, []) else (take (nat n) s, drop (nat n) s))"

section \<open>The native messaging codec (native-host/host.py)\<close>

text \<open>
  \<^verbatim>\<open>
  def read_native_message():
      raw_length = sys.stdin.buffer.read(4)
      if len(raw_length) < 4:
          return None
      length = struct.unpack('<I', raw_length)[0]
      message = sys.stdin.buffer.read(length).decode('utf-8')
      return json.loads(message)
  \<close>
  The function takes what is left of standard input and returns the value or the exception,
  and what is left afterwards.
\<close>

definition read_native_message :: "pylib \<Rightarrow> bytes \<Rightarrow> (exn + json) \<times> bytes" where
  "read_native_message lib stdin0 =
     (let (raw_length, stdin1) = stream_read 4 stdin0 in
      if length raw_length < 4 then (Inr JNull, stdin1)
      else
        (case struct_unpack_I raw_length of
           Inl e \<Rightarrow> (Inl e, stdin1)
         | Inr len \<Rightarrow>
             (let (payload, stdin2) = stream_read (int len) stdin1 in
              case utf8_decode lib payload of
                Inl m \<Rightarrow> (Inl (UnicodeDecodeError m), stdin2)
              | Inr message \<Rightarrow>
                  (case json_loads lib message of
                     Inl m \<Rightarrow> (Inl (JSONDecodeError m), stdin2)
                   | Inr v \<Rightarrow> (Inr v, stdin2)))))"

text \<open>
  \<^verbatim>\<open>
  def write_native_message(message):
      encoded = json.dumps(message).encode('utf-8')
      sys.stdout.buffer.write(struct.pack('<I', len(encoded)))
      sys.stdout.buffer.write(encoded)
      sys.stdout.buffer.flush()
  \<close>
  The function takes what has been written to standard output so far. When
  \<^verbatim>\<open>struct.pack\<close> raises, nothing has been written.
\<close>

definition write_native_message :: "pylib \<Rightarrow> json \<Rightarrow> bytes \<Rightarrow> (exn + unit) \<times> bytes" where
  "write_native_message lib message stdout0 =
     (let encoded = utf8_encode lib (json_dumps lib message) in
      case struct_pack_I (length encoded) of
        Inl e \<Rightarrow> (Inl e, stdout0)
      | Inr prefix \<Rightarrow> (Inr (), (stdout0 @ prefix) @ encoded))"

record host_state =
  stdin :: bytes
  stdout :: bytes

text \<open>
  \<^verbatim>\<open>
  def send_to_extension(message):
      write_native_message(message)
      return read_native_message()
  \<close>
\<close>

definition send_to_extension :: "pylib \<Rightarrow> json \<Rightarrow> host_state \<Rightarrow> (exn + json) \<times> host_state" where
  "send_to_extension lib message io =
     (case write_native_message lib message (stdout io) of
        (Inl e, out) \<Rightarrow> (Inl e, io\<lparr>stdout := out\<rparr>)
      | (Inr u, out) \<Rightarrow>
          (case read_native_message lib (stdin io) of
             (r, rest) \<Rightarrow> (r, io\<lparr>stdin := rest, stdout := out\<rparr>)))"

section \<open>HTTP requests and responses\<close>

text \<open>
  What a handler sees of a request: \<^verbatim>\<open>self.path\<close>, the \<^verbatim>\<open>Content-Length\<close> header when there
  is one, and the bytes that \<^verbatim>\<open>self.rfile\<close> delivers until the client's end of the connection
  closes. What it answers: the status of \<^verbatim>\<open>send_response\<close>, the headers of its own
  \<^verbatim>\<open>send_header\<close> calls, and the bytes written to \<^verbatim>\<open>self.wfile\<close>.
\<close>

record request =
  path :: pystr
  content_length :: "pystr option"
  rfile :: bytes

record response =
  status :: nat
  headers :: "(pystr \<times> pystr) list"
  body :: bytes

definition content_type_json :: "pystr \<times> pystr" where
  "content_type_json = (''Content-Type'', ''application/json'')"

text \<open>\<^verbatim>\<open>_cors_headers\<close> of the command server and \<^verbatim>\<open>_send_cors_headers\<close> of the native host.\<close>

definition cors_headers :: "(pystr \<times> pystr) list" where
  "cors_headers =
     [(''Access-Control-Allow-Origin'', ''*''),
      (''Access-Control-Allow-Methods'', ''GET, POST, OPTIONS''),
      (''Access-Control-Allow-Headers'', ''Content-Type'')]"

text \<open>
  Both \<^verbatim>\<open>do_POST\<close> handlers start with
  \<^verbatim>\<open>
  content_length = int(self.headers.get('Content-Length', 0))
  body = self.rfile.read(content_length).decode('utf-8')
  \<close>
\<close>

definition read_body :: "pylib \<Rightarrow> request \<Rightarrow> exn + pystr" where
  "read_body lib req =
     (case (case content_length req of None \<Rightarrow> Inr 0 | Some h \<Rightarrow> int_of_str lib h) of
        Inl m \<Rightarrow> Inl (ValueError m)
      | Inr n \<Rightarrow>
          (case utf8_decode lib (fst (stream_read n (rfile req))) of
             Inl m \<Rightarrow> Inl (UnicodeDecodeError m)
           | Inr text \<Rightarrow> Inr text))"

section \<open>The native host's HTTP handler (native-host/host.py)\<close>

text \<open>
  The class attribute \<^verbatim>\<open>request_id_counter = 0\<close>. The handler's
  \<^verbatim>\<open>self.request_id_counter += 1\<close> reads it and stores the sum in the handler instance, which
  serves one request: the class attribute is never written.
\<close>

definition request_id_counter :: nat where
  "request_id_counter = 0"

text \<open>The body of the error answers: \<^verbatim>\<open>{'success': False, 'error': msg}\<close>.\<close>

definition error_response :: "pylib \<Rightarrow> nat \<Rightarrow> pystr \<Rightarrow> response" where
  "error_response lib code msg =
     \<lparr>status = code, headers = content_type_json # cors_headers,
      body = utf8_encode lib (json_dumps lib
               (JObject [(''success'', JBool False), (''error'', JString msg)]))\<rparr>"

text \<open>
  The \<^verbatim>\<open>try\<close> block of \<^verbatim>\<open>NativeHostHandler.do_POST\<close>:
  \<^verbatim>\<open>
  content_length = int(self.headers.get('Content-Length', 0))
  body = self.rfile.read(content_length).decode('utf-8')
  request = json.loads(body)
  with self.lock:
      self.request_id_counter += 1
      request_id = request.get('id', f'http_{self.request_id_counter}')
      request['id'] = request_id
  response = send_to_extension(request)
  self.send_response(200) ...
  self.wfile.write(json.dumps(response).encode())
  \<close>
\<close>

definition NativeHostHandler_try :: "pylib \<Rightarrow> request \<Rightarrow> host_state \<Rightarrow> (exn + response) \<times> host_state" where
  "NativeHostHandler_try lib req io =
     (case read_body lib req of
        Inl e \<Rightarrow> (Inl e, io)
      | Inr text \<Rightarrow>
          (case json_loads lib text of
             Inl m \<Rightarrow> (Inl (JSONDecodeError m), io)
           | Inr (JObject kvs) \<Rightarrow>
               (let counter = request_id_counter + 1;
                    request_id = (case map_of kvs ''id'' of
                                    Some i \<Rightarrow> i
                                  | None \<Rightarrow> JString (''http_'' @ str_nat counter));
                    request = JObject (AList.update ''id'' request_id kvs)
                in case send_to_extension lib request io of
                     (Inl e, io') \<Rightarrow> (Inl e, io')
                   | (Inr answer, io') \<Rightarrow>
                       (Inr \<lparr>status = 200, headers = content_type_json # cors_headers,
                             body = utf8_encode lib (json_dumps lib answer)\<rparr>, io'))
           | Inr v \<Rightarrow>
               (Inl (AttributeError
                  ([CHR 0x27] @ type_name v @ [CHR 0x27] @ '' object has no attribute ''
                   @ [CHR 0x27] @ ''get'' @ [CHR 0x27])), io)))"

text \<open>
  \<^verbatim>\<open>
  except json.JSONDecodeError as e:
      self.send_response(400) ...
      self.wfile.write(json.dumps({'success': False, 'error': f'Invalid JSON: {str(e)}'}).encode())
  except Exception as e:
      self.send_response(500) ...
      self.wfile.write(json.dumps({'success': False, 'error': str(e)}).encode())
  \<close>
\<close>

definition NativeHostHandler_do_POST :: "pylib \<Rightarrow> request \<Rightarrow> host_state \<Rightarrow> response \<times> host_state" where
  "NativeHostHandler_do_POST lib req io =
     (case NativeHostHandler_try lib req io of
        (Inr r, io') \<Rightarrow> (r, io')
      | (Inl (JSONDecodeError m), io') \<Rightarrow> (error_response lib 400 (''Invalid JSON: '' @ m), io')
      | (Inl e, io') \<Rightarrow> (error_response lib 500 (exn_str e), io'))"

section \<open>The command server (command-server.py)\<close>

text \<open>
  The shared state: \<^verbatim>\<open>pending_command = None\<close>, \<^verbatim>\<open>pending_result = None\<close> and the flag of
  \<^verbatim>\<open>result_event = threading.Event()\<close>. Every access is made under \<^verbatim>\<open>lock\<close>, so each
  \<^verbatim>\<open>with lock:\<close> block is one atomic step on this record.
\<close>

record relay_state =
  pending_command :: json
  pending_result :: json
  result_event :: bool

definition initial_state :: relay_state where
  "initial_state = \<lparr>pending_command = JNull, pending_result = JNull, result_event = False\<rparr>"

text \<open>
  \<^verbatim>\<open>
  def do_GET(self):
      if self.path == '/command':
          with lock:
              if pending_command:
                  cmd = pending_command
                  pending_command = None
                  self.send_response(200) ... self.wfile.write(json.dumps(cmd).encode())
              else:
                  self.send_response(204) ...
      elif self.path == '/':
          self.send_response(200) ...
          self.wfile.write(json.dumps({"status": "ok", "name": "command-server"}).encode())
      else:
          self.send_response(404)
  \<close>
\<close>

definition CommandHandler_do_GET :: "pylib \<Rightarrow> pystr \<Rightarrow> relay_state \<Rightarrow> response \<times> relay_state" where
  "CommandHandler_do_GET lib p st =
     (if p = ''/command'' then
        (if truthy (pending_command st) then
           (let cmd = pending_command st in
            (\<lparr>status = 200, headers = content_type_json # cors_headers,
              body = utf8_encode lib (json_dumps lib cmd)\<rparr>,
             st\<lparr>pending_command := JNull\<rparr>))
         else (\<lparr>status = 204, headers = cors_headers, body = []\<rparr>, st))
      else if p = ''/'' then
        (\<lparr>status = 200, headers = content_type_json # cors_headers,
          body = utf8_encode lib (json_dumps lib
                   (JObject [(''status'', JString ''ok''), (''name'', JString ''command-server'')]))\<rparr>,
         st)
      else (\<lparr>status = 404, headers = [], body = []\<rparr>, st))"

text \<open>The three locked blocks of \<^verbatim>\<open>do_POST\<close>, in the order of the source.\<close>

text \<open>\<^verbatim>\<open>with lock: pending_command = data; result_event.clear()\<close>\<close>

definition post_command_submit :: "json \<Rightarrow> relay_state \<Rightarrow> relay_state" where
  "post_command_submit data st = st\<lparr>pending_command := data, result_event := False\<rparr>"

text \<open>\<^verbatim>\<open>with lock: result = pending_result; pending_result = None\<close>\<close>

definition post_command_collect :: "relay_state \<Rightarrow> json \<times> relay_state" where
  "post_command_collect st = (pending_result st, st\<lparr>pending_result := JNull\<rparr>)"

text \<open>\<^verbatim>\<open>with lock: pending_result = data; result_event.set()\<close>\<close>

definition post_result_store :: "json \<Rightarrow> relay_state \<Rightarrow> relay_state" where
  "post_result_store data st = st\<lparr>pending_result := data, result_event := True\<rparr>"

text \<open>
  The answer of \<^verbatim>\<open>POST /command\<close>:
  \<^verbatim>\<open>self.wfile.write(json.dumps(result or {"error": "timeout"}).encode())\<close> with status 200.
\<close>

definition command_response :: "pylib \<Rightarrow> json \<Rightarrow> response" where
  "command_response lib result =
     \<lparr>status = 200, headers = content_type_json # cors_headers,
      body = utf8_encode lib (json_dumps lib
               (if truthy result then result else JObject [(''error'', JString ''timeout'')]))\<rparr>"

text \<open>The answer of \<^verbatim>\<open>POST /result\<close>: status 200, CORS headers, no body.\<close>

definition result_response :: response where
  "result_response = \<lparr>status = 200, headers = cors_headers, body = []\<rparr>"

text \<open>
  The server handles each request in a thread of its own. What the other threads do while
  one \<^verbatim>\<open>POST /command\<close> is being handled is a sequence of their atomic steps:
  a whole \<^verbatim>\<open>GET /command\<close>, the locked block of a \<^verbatim>\<open>POST /result\<close> with its parsed body,
  and the first and the second locked block of another \<^verbatim>\<open>POST /command\<close>.
\<close>

datatype action = Poll | Deliver json | Submit json | Collect

fun perform :: "pylib \<Rightarrow> action \<Rightarrow> relay_state \<Rightarrow> response list \<times> relay_state" where
  "perform lib Poll st = (case CommandHandler_do_GET lib ''/command'' st of (r, st') \<Rightarrow> ([r], st'))"
| "perform lib (Deliver d) st = ([result_response], post_result_store d st)"
| "perform lib (Submit d) st = ([], post_command_submit d st)"
| "perform lib Collect st =
     (case post_command_collect st of (result, st') \<Rightarrow> ([command_response lib result], st'))"

fun run_actions :: "pylib \<Rightarrow> action list \<Rightarrow> relay_state \<Rightarrow> response list \<times> relay_state" where
  "run_actions lib [] st = ([], st)"
| "run_actions lib (a # as) st =
     (case perform lib a st of
        (rs, st1) \<Rightarrow> (case run_actions lib as st1 of (rs', st2) \<Rightarrow> (rs @ rs', st2)))"

text \<open>
  \<^verbatim>\<open>result_event.wait(timeout=t)\<close>. Time is counted in the units of the timeout (seconds):
  while the handler waits, either one unit of time passes (\<open>Tick\<close>) or another thread makes
  a step. The wait returns at once when the flag is set, returns when a step sets the flag,
  and returns after \<open>t\<close> units otherwise; when the other threads have nothing left to do,
  the rest of the time passes. The result is whether the flag was seen set, the time
  waited, the answers the other threads gave meanwhile, and the state.
\<close>

datatype event = Tick | Act action

fun event_wait :: "pylib \<Rightarrow> nat \<Rightarrow> event list \<Rightarrow> relay_state \<Rightarrow> bool \<times> nat \<times> response list \<times> relay_state" where
  "event_wait lib t [] st = (if result_event st then (True, 0, [], st) else (False, t, [], st))"
| "event_wait lib t (Tick # evs) st =
     (if result_event st then (True, 0, [], st)
      else (case t of
              0 \<Rightarrow> (False, 0, [], st)
            | Suc t' \<Rightarrow>
                (case event_wait lib t' evs st of
                   (signaled, w, rs, st') \<Rightarrow> (signaled, Suc w, rs, st'))))"
| "event_wait lib t (Act a # evs) st =
     (if result_event st then (True, 0, [], st)
      else if t = 0 then (False, 0, [], st)
      else (case perform lib a st of
              (rs, st1) \<Rightarrow>
                (case event_wait lib t evs st1 of
                   (signaled, w, rs', st') \<Rightarrow> (signaled, w, rs @ rs', st'))))"

text \<open>
  The steps of the other threads around one \<^verbatim>\<open>POST /command\<close>: between its first locked
  block and the call of \<^verbatim>\<open>wait\<close>, during the wait, and between the return of \<^verbatim>\<open>wait\<close> and its
  second locked block.
\<close>

record schedule =
  before_wait :: "action list"
  during_wait :: "event list"
  after_wait :: "action list"

text \<open>
  What one \<^verbatim>\<open>do_POST\<close> yields: the response, or the exception that leaves the handler (the
  server then closes the connection without a response); the state afterwards; the time
  spent in \<^verbatim>\<open>wait\<close>; and the answers given to the other threads in the meantime.
\<close>

record post_outcome =
  outcome :: "exn + response"
  final :: relay_state
  waited :: nat
  served :: "response list"

text \<open>
  The part of \<^verbatim>\<open>do_POST\<close> between the two locked blocks of \<^verbatim>\<open>/command\<close>:
  \<^verbatim>\<open>result_event.wait(timeout=30)\<close> with the steps of the other threads around it.
\<close>

definition command_wait :: "pylib \<Rightarrow> schedule \<Rightarrow> relay_state \<Rightarrow> bool \<times> nat \<times> response list \<times> relay_state" where
  "command_wait lib sched st1 =
     (case run_actions lib (before_wait sched) st1 of
        (rs1, st2) \<Rightarrow>
          (case event_wait lib 30 (during_wait sched) st2 of
             (signaled, w, rs2, st3) \<Rightarrow>
               (case run_actions lib (after_wait sched) st3 of
                  (rs3, st4) \<Rightarrow> (signaled, w, rs1 @ rs2 @ rs3, st4))))"

text \<open>
  \<^verbatim>\<open>
  def do_POST(self):
      content_length = int(self.headers.get('Content-Length', 0))
      body = self.rfile.read(content_length).decode('utf-8')
      try:
          data = json.loads(body) if body else {}
      except json.JSONDecodeError:
          self.send_response(400)
          self.end_headers()
          return
      if self.path == '/command':
          with lock:
              pending_command = data
              result_event.clear()
          result_event.wait(timeout=30)
          with lock:
              result = pending_result
              pending_result = None
          self.send_response(200) ...
          self.wfile.write(json.dumps(result or {"error": "timeout"}).encode())
      elif self.path == '/result':
          with lock:
              pending_result = data
              result_event.set()
          self.send_response(200) ...
      else:
          self.send_response(404)
  \<close>
\<close>

definition CommandHandler_do_POST :: "pylib \<Rightarrow> request \<Rightarrow> schedule \<Rightarrow> relay_state \<Rightarrow> post_outcome" where
  "CommandHandler_do_POST lib req sched st =
     (case read_body lib req of
        Inl e \<Rightarrow> \<lparr>outcome = Inl e, final = st, waited = 0, served = []\<rparr>
      | Inr text \<Rightarrow>
          (case (if text \<noteq> [] then json_loads lib text else Inr (JObject [])) of
             Inl m \<Rightarrow>
               \<lparr>outcome = Inr \<lparr>status = 400, headers = [], body = []\<rparr>,
                final = st, waited = 0, served = []\<rparr>
           | Inr data \<Rightarrow>
               (if path req = ''/command'' then
                  (case command_wait lib sched (post_command_submit data st) of
                     (signaled, w, rs, st4) \<Rightarrow>
                       (case post_command_collect st4 of
                          (result, st5) \<Rightarrow>
                            \<lparr>outcome = Inr (command_response lib result),
                             final = st5, waited = w, served = rs\<rparr>))
                else if path req = ''/result'' then
                  \<lparr>outcome = Inr result_response,
                   final = post_result_store data st, waited = 0, served = []\<rparr>
                else
                  \<lparr>outcome = Inr \<lparr>status = 404, headers = [], body = []\<rparr>,
                   final = st, waited = 0, served = []\<rparr>)))"

section \<open>Schedules of the other threads\<close>

fun event_actions :: "event list \<Rightarrow> action list" where
  "event_actions [] = []"
| "event_actions (Tick # evs) = event_actions evs"
| "event_actions (Act a # evs) = a # event_actions evs"

text \<open>All the steps the other threads make while one \<^verbatim>\<open>POST /command\<close> is handled.\<close>

definition actions_of :: "schedule \<Rightarrow> action list" where
  "actions_of sched = before_wait sched @ event_actions (during_wait sched) @ after_wait sched"

text \<open>
  A step that touches the stored result: a \<^verbatim>\<open>POST /result\<close> stores one, the second block of
  another \<^verbatim>\<open>POST /command\<close> takes it away.
\<close>

fun touches_result :: "action \<Rightarrow> bool" where
  "touches_result Poll = False"
| "touches_result (Deliver d) = True"
| "touches_result (Submit d) = False"
| "touches_result Collect = True"

fun is_poll :: "action \<Rightarrow> bool" where
  "is_poll Poll = True"
| "is_poll (Deliver d) = False"
| "is_poll (Submit d) = False"
| "is_poll Collect = False"

text \<open>
  A step that touches the pending command: a \<^verbatim>\<open>GET /command\<close> may take it away, the first
  block of another \<^verbatim>\<open>POST /command\<close> replaces it.
\<close>

fun touches_command :: "action \<Rightarrow> bool" where
  "touches_command Poll = True"
| "touches_command (Deliver d) = False"
| "touches_command (Submit d) = True"
| "touches_command Collect = False"

definition no_content :: response where
  "no_content = \<lparr>status = 204, headers = cors_headers, body = []\<rparr>"

definition idle :: schedule where
  "idle = \<lparr>before_wait = [], during_wait = [], after_wait = []\<rparr>"

section \<open>A library for the examples\<close>

text \<open>
  The examples below run the model on concrete requests and streams. They use this instance
  of the library, which gives what CPython gives on the texts that occur in them: ASCII
  bytes, decimal numerals, and the JSON documents listed. The general theorems hold for
  every library.
\<close>

definition example_loads :: "pystr \<Rightarrow> pystr + json" where
  \<open>example_loads s =
     (if s = ''12'' then Inr (JInt 12)
      else if s = ''{}'' then Inr (JObject [])
      else if s = ''{"ok": true}'' then Inr (JObject [(''ok'', JBool True)])
      else if s = ''{"tool":"screenshot","args":{}}''
        then Inr (JObject [(''tool'', JString ''screenshot''), (''args'', JObject [])])
      else if s = ''{''
        then Inl ''Expecting property name enclosed in double quotes: line 1 column 2 (char 1)''
      else Inl ''Expecting value: line 1 column 1 (char 0)'')\<close>

definition example_dumps :: "json \<Rightarrow> pystr" where
  \<open>example_dumps v =
     (if v = JObject [(''error'', JString ''timeout'')] then ''{"error": "timeout"}''
      else if v = JObject [(''ok'', JBool True)] then ''{"ok": true}''
      else if v = JObject [(''tool'', JString ''screenshot''), (''args'', JObject [])]
        then ''{"tool": "screenshot", "args": {}}''
      else if v = JInt 12 then ''12''
      else if v = JObject [] then ''{}''
      else if v = JObject [(''success'', JBool False), (''error'', JString
          ''Invalid JSON: Expecting property name enclosed in double quotes: line 1 column 2 (char 1)'')]
        then ''{"success": false, "error": "Invalid JSON: Expecting property name enclosed in double quotes: line 1 column 2 (char 1)"}''
      else ''null'')\<close>

definition example_decode :: "bytes \<Rightarrow> pystr + pystr" where
  "example_decode b =
     (if list_all (\<lambda>c. of_char c < (128 :: nat)) b then Inr b
      else Inl ([CHR 0x27] @ ''utf-8'' @ [CHR 0x27] @ '' codec can'' @ [CHR 0x27]
                @ ''t decode byte 0xff in position 0: invalid start byte''))"

definition example_int :: "pystr \<Rightarrow> pystr + int" where
  "example_int s =
     (if s \<noteq> [] \<and> list_all (\<lambda>c. 48 \<le> (of_char c :: nat) \<and> (of_char c :: nat) \<le> 57) s
      then Inr (int (foldl (\<lambda>n c. 10 * n + (of_char c - 48)) 0 s))
      else Inl ''invalid literal for int() with base 10'')"

definition example_lib :: pylib where
  "example_lib =
     \<lparr>json_loads = example_loads, json_dumps = example_dumps,
      utf8_decode = example_decode, utf8_encode = (\<lambda>s. s), int_of_str = example_int\<rparr>"

section \<open>Facts about struct and the streams\<close>

lemmas example_simps = example_lib_def example_loads_def example_dumps_def example_decode_def
  example_int_def read_body_def stream_read_def

lemma char_of_nat:
  "char_of (n::nat) =
     Char (odd n) (odd (n div 2)) (odd (n div 4)) (odd (n div 8))
          (odd (n div 16)) (odd (n div 32)) (odd (n div 64)) (odd (n div 128))"
  by (simp add: char_of_def bit_iff_odd)

lemma le_value_bound: "le_value b < 256 ^ length b"
proof (induction b)
  case Nil
  then show ?case by simp
next
  case (Cons c b)
  have "le_value b + 1 \<le> 256 ^ length b" using Cons by simp
  then have le: "256 * (le_value b + 1) \<le> 256 * 256 ^ length b" by (rule mult_le_mono2)
  have "(of_char c :: nat) + 256 * le_value b < 256 + 256 * le_value b"
    by (rule add_strict_right_mono) simp
  also have "\<dots> = 256 * (le_value b + 1)" by simp
  also note le
  finally show ?case by simp
qed

lemma le_value_le_bytes: "n < 256 ^ k \<Longrightarrow> le_value (le_bytes k n) = n"
proof (induction k arbitrary: n)
  case 0
  then show ?case by simp
next
  case (Suc k)
  from Suc.prems have "n div 256 < 256 ^ k"
    by (simp add: less_mult_imp_div_less mult.commute)
  then have "le_value (le_bytes k (n div 256)) = n div 256"
    by (rule Suc.IH)
  then show ?case by simp
qed

lemma length_le_bytes: "length (le_bytes k n) = k"
  by (induction k arbitrary: n) simp_all

lemma le_bytes_4:
  "le_bytes 4 n = [char_of n, char_of (n div 256), char_of (n div 256 div 256),
                   char_of (n div 256 div 256 div 256)]"
proof -
  have four: "(4::nat) = Suc (Suc (Suc (Suc 0)))" by simp
  show ?thesis by (subst four) simp
qed

section \<open>The codec\<close>

lemma read_native_message_short:
  "length s < 4 \<Longrightarrow> read_native_message lib s = (Inr JNull, [])"
  by (simp add: read_native_message_def stream_read_def)

text \<open>
  On a stream that starts with four bytes \<open>p\<close>, the reader takes the next \<open>le_value p\<close> bytes,
  or all that are left when there are fewer, and decodes them.
\<close>

lemma read_native_message_prefixed:
  assumes "length p = 4"
  shows "read_native_message lib (p @ s) =
           (case utf8_decode lib (take (le_value p) s) of
              Inl m \<Rightarrow> Inl (UnicodeDecodeError m)
            | Inr text \<Rightarrow>
                (case json_loads lib text of
                   Inl m \<Rightarrow> Inl (JSONDecodeError m)
                 | Inr v \<Rightarrow> Inr v),
            drop (le_value p) s)"
  using assms
  by (simp add: read_native_message_def stream_read_def struct_unpack_I_def
      split: sum.splits)

lemma write_native_message_framed:
  assumes "write_native_message lib v out0 = (Inr (), out)"
  shows "length (utf8_encode lib (json_dumps lib v)) < 2 ^ 32 \<and>
         out = out0 @ le_bytes 4 (length (utf8_encode lib (json_dumps lib v)))
                 @ utf8_encode lib (json_dumps lib v)"
  using assms
  by (simp add: write_native_message_def struct_pack_I_def Let_def split: if_splits)

text \<open>
  C3. Round trip of the codec. Let \<open>framed\<close> be what \<^verbatim>\<open>write_native_message(v)\<close> writes to an
  empty output: the 4-byte little-endian length of the payload and the payload
  \<^verbatim>\<open>json.dumps(v).encode('utf-8')\<close>. If the library decodes this payload to the text it
  came from and \<^verbatim>\<open>json.loads\<close> of that text is \<open>v\<close>, then \<^verbatim>\<open>read_native_message\<close> on a
  stream that starts with \<open>framed\<close> returns \<open>v\<close> and leaves exactly what follows \<open>framed\<close>.
\<close>

theorem native_message_roundtrip:
  assumes "write_native_message lib v [] = (Inr (), framed)"
    and "utf8_decode lib (utf8_encode lib (json_dumps lib v)) = Inr (json_dumps lib v)"
    and "json_loads lib (json_dumps lib v) = Inr v"
  shows "read_native_message lib (framed @ rest) = (Inr v, rest)"
proof -
  let ?encoded = "utf8_encode lib (json_dumps lib v)"
  let ?p = "le_bytes 4 (length ?encoded)"
  from assms(1) have small: "length ?encoded < 2 ^ 32" and framed: "framed = ?p @ ?encoded"
    using write_native_message_framed [of lib v "[]" framed] by simp_all
  have "(256::nat) ^ 4 = 2 ^ 32" by simp
  with small have "le_value ?p = length ?encoded"
    by (simp only: le_value_le_bytes)
  moreover have "length ?p = 4" by (rule length_le_bytes)
  ultimately have "read_native_message lib (?p @ (?encoded @ rest)) = (Inr v, rest)"
    using assms(2,3) by (simp add: read_native_message_prefixed)
  with framed show ?thesis by simp
qed

theorem native_message_roundtrip_witness:
  \<open>write_native_message example_lib (JObject [(''ok'', JBool True)]) [] =
     (Inr (), [CHR 0x0C, CHR 0x00, CHR 0x00, CHR 0x00] @ ''{"ok": true}'')
   \<and> read_native_message example_lib ([CHR 0x0C, CHR 0x00, CHR 0x00, CHR 0x00] @ ''{"ok": true}'') =
     (Inr (JObject [(''ok'', JBool True)]), [])\<close>
proof -
  let ?v = "JObject [(''ok'', JBool True)]"
  have 1: \<open>write_native_message example_lib ?v [] =
     (Inr (), [CHR 0x0C, CHR 0x00, CHR 0x00, CHR 0x00] @ ''{"ok": true}'')\<close>
    by (simp add: write_native_message_def struct_pack_I_def example_simps le_bytes_4 char_of_nat)
  have 2: "utf8_decode example_lib (utf8_encode example_lib (json_dumps example_lib ?v)) =
             Inr (json_dumps example_lib ?v)"
    by (simp add: example_simps)
  have 3: "json_loads example_lib (json_dumps example_lib ?v) = Inr ?v"
    by (simp add: example_simps)
  from native_message_roundtrip [OF 1 2 3, of "[]"] 1 show ?thesis by simp
qed

text \<open>
  C5. The reader first reads four bytes. On a stream that ends before four bytes are there
  it returns \<^verbatim>\<open>None\<close> and raises nothing, whatever the library does; on a longer stream
  what it leaves starts after the four prefix bytes and the payload bytes they announce.
\<close>

theorem short_prefix_is_end_of_stream:
  "(length s < 4 \<longrightarrow> read_native_message lib s = (Inr JNull, []))
   \<and> (4 \<le> length s \<longrightarrow>
        snd (read_native_message lib s) = drop (le_value (take 4 s)) (drop 4 s))"
proof (intro conjI impI)
  assume "length s < 4"
  then show "read_native_message lib s = (Inr JNull, [])"
    by (rule read_native_message_short)
next
  assume "4 \<le> length s"
  then have "length (take 4 s) = 4" by simp
  then have "snd (read_native_message lib (take 4 s @ drop 4 s)) =
               drop (le_value (take 4 s)) (drop 4 s)"
    by (simp only: read_native_message_prefixed snd_conv)
  then show "snd (read_native_message lib s) = drop (le_value (take 4 s)) (drop 4 s)"
    by (simp only: append_take_drop_id)
qed

theorem short_prefix_is_end_of_stream_witness:
  "length [CHR 0x02, CHR 0x00, CHR 0x00] < 4
   \<and> read_native_message example_lib [CHR 0x02, CHR 0x00, CHR 0x00] = (Inr JNull, [])
   \<and> snd (read_native_message example_lib ([CHR 0x02, CHR 0x00, CHR 0x00, CHR 0x00] @ ''12'' @ ''rest''))
       = ''rest''"
  using short_prefix_is_end_of_stream [of "[CHR 0x02, CHR 0x00, CHR 0x00]" example_lib]
    short_prefix_is_end_of_stream
      [of "[CHR 0x02, CHR 0x00, CHR 0x00, CHR 0x00] @ ''12'' @ ''rest''" example_lib]
  by simp

text \<open>
  C6, as claimed, fails: a stream whose prefix announces 10 bytes and which ends after the two
  bytes \<^verbatim>\<open>12\<close> gives the value 12, not an error.
\<close>

theorem truncated_payload_counterexample:
  "le_value [CHR 0x0A, CHR 0x00, CHR 0x00, CHR 0x00] = 10
   \<and> length ''12'' < 10
   \<and> read_native_message example_lib ([CHR 0x0A, CHR 0x00, CHR 0x00, CHR 0x00] @ ''12'') =
       (Inr (JInt 12), [])"
  by (simp add: read_native_message_def struct_unpack_I_def example_simps)

text \<open>
  C6, amended. On a stream with a complete 4-byte prefix that ends before the announced
  number of payload bytes, the reader returns (it is a total function of the stream) with
  the whole stream consumed, and its result is that of decoding the bytes that did arrive:
  a \<^verbatim>\<open>UnicodeDecodeError\<close> when they are not UTF-8, a \<^verbatim>\<open>JSONDecodeError\<close> when they are not
  JSON, and their value otherwise. The number of bytes read is not compared with the
  announced length.
\<close>

theorem truncated_payload_is_parsed:
  assumes "4 \<le> length s" and "length (drop 4 s) < le_value (take 4 s)"
  shows "read_native_message lib s =
           (case utf8_decode lib (drop 4 s) of
              Inl m \<Rightarrow> Inl (UnicodeDecodeError m)
            | Inr text \<Rightarrow>
                (case json_loads lib text of
                   Inl m \<Rightarrow> Inl (JSONDecodeError m)
                 | Inr v \<Rightarrow> Inr v),
            [])"
proof -
  from assms(1) have "length (take 4 s) = 4" by simp
  then have "read_native_message lib (take 4 s @ drop 4 s) =
           (case utf8_decode lib (take (le_value (take 4 s)) (drop 4 s)) of
              Inl m \<Rightarrow> Inl (UnicodeDecodeError m)
            | Inr text \<Rightarrow>
                (case json_loads lib text of
                   Inl m \<Rightarrow> Inl (JSONDecodeError m)
                 | Inr v \<Rightarrow> Inr v),
            drop (le_value (take 4 s)) (drop 4 s))"
    by (rule read_native_message_prefixed)
  with assms(2) show ?thesis by simp
qed

theorem truncated_payload_is_parsed_witness:
  "read_native_message example_lib ([CHR 0x05, CHR 0x00, CHR 0x00, CHR 0x00] @ ''{'') =
     (Inl (JSONDecodeError
        ''Expecting property name enclosed in double quotes: line 1 column 2 (char 1)''), [])"
proof -
  let ?s = "[CHR 0x05, CHR 0x00, CHR 0x00, CHR 0x00] @ ''{''"
  have 1: "4 \<le> length ?s" by simp
  have 2: "length (drop 4 ?s) < le_value (take 4 ?s)" by simp
  from truncated_payload_is_parsed [OF 1 2, of example_lib] show ?thesis
    by (simp add: example_simps)
qed

text \<open>
  C7, as claimed, fails: with the largest length four bytes can announce, 4294967295, the
  reader still reads the payload and returns its value.
\<close>

theorem maximum_size_counterexample:
  "le_value [CHR 0xFF, CHR 0xFF, CHR 0xFF, CHR 0xFF] = 4294967295
   \<and> read_native_message example_lib ([CHR 0xFF, CHR 0xFF, CHR 0xFF, CHR 0xFF] @ ''12'') =
       (Inr (JInt 12), [])"
  by (simp add: read_native_message_def struct_unpack_I_def example_simps)

text \<open>
  C7, amended. The reader has no maximum message size. The announced length is below
  \<open>2 ^ 32\<close> because it is read from four bytes, and a message of any announced length whose
  payload is there and decodes to a value is accepted with that value.
\<close>

theorem no_maximum_message_size:
  assumes "length p = 4" and "length payload = le_value p"
    and "utf8_decode lib payload = Inr text" and "json_loads lib text = Inr v"
  shows "le_value p < 2 ^ 32 \<and> read_native_message lib (p @ payload @ rest) = (Inr v, rest)"
proof
  have "le_value p < 256 ^ length p" by (rule le_value_bound)
  with assms(1) show "le_value p < 2 ^ 32" by simp
  from assms show "read_native_message lib (p @ payload @ rest) = (Inr v, rest)"
    by (simp add: read_native_message_prefixed)
qed

theorem no_maximum_message_size_witness:
  "read_native_message example_lib ([CHR 0x02, CHR 0x00, CHR 0x00, CHR 0x00] @ ''12'' @ ''rest'') =
     (Inr (JInt 12), ''rest'')"
proof -
  let ?p = "[CHR 0x02, CHR 0x00, CHR 0x00, CHR 0x00]"
  have 1: "length ?p = 4" by simp
  have 2: "length ''12'' = le_value ?p" by simp
  have 3: "utf8_decode example_lib ''12'' = Inr ''12''" by (simp add: example_simps)
  have 4: "json_loads example_lib ''12'' = Inr (JInt 12)" by (simp add: example_simps)
  from no_maximum_message_size [OF 1 2 3 4, of "''rest''"] show ?thesis by simp
qed

section \<open>The wait of the command server\<close>

lemma event_wait_unsignaled:
  "event_wait lib t evs st = (False, w, rs, st') \<Longrightarrow> w = t"
proof (induction lib t evs st arbitrary: w rs st' rule: event_wait.induct)
  case (1 lib t st)
  then show ?case by (simp split: if_splits)
next
  case (2 lib t evs st)
  then show ?case by (auto split: if_splits nat.splits prod.splits)
next
  case (3 lib t a evs st)
  then show ?case by (auto split: if_splits prod.splits)
qed

lemma command_wait_unsignaled:
  "command_wait lib sched st = (False, w, rs, st') \<Longrightarrow> w = 30"
  by (auto simp: command_wait_def split: prod.splits dest: event_wait_unsignaled)

lemma perform_untouched:
  assumes "\<not> touches_result a" and "perform lib a st = (rs, st')"
  shows "pending_result st' = pending_result st \<and> (\<not> result_event st \<longrightarrow> \<not> result_event st')"
  using assms
  by (cases a) (auto simp: CommandHandler_do_GET_def post_command_submit_def Let_def split: if_splits)

lemma run_actions_untouched:
  assumes "list_all (\<lambda>a. \<not> touches_result a) as" and "run_actions lib as st = (rs, st')"
  shows "pending_result st' = pending_result st \<and> (\<not> result_event st \<longrightarrow> \<not> result_event st')"
  using assms
proof (induction as arbitrary: st rs st')
  case Nil
  then show ?case by simp
next
  case (Cons a as)
  obtain rs1 st1 where p: "perform lib a st = (rs1, st1)" by (cases "perform lib a st")
  obtain rs2 st2 where r: "run_actions lib as st1 = (rs2, st2)" by (cases "run_actions lib as st1")
  from Cons.prems p r have "st' = st2" by simp
  moreover from Cons.prems(1) p
  have "pending_result st1 = pending_result st \<and> (\<not> result_event st \<longrightarrow> \<not> result_event st1)"
    using perform_untouched [of a lib st rs1 st1] by simp
  moreover from Cons.prems(1) r
  have "pending_result st2 = pending_result st1 \<and> (\<not> result_event st1 \<longrightarrow> \<not> result_event st2)"
    using Cons.IH [of st1 rs2 st2] by simp
  ultimately show ?case by simp
qed

lemma event_wait_untouched:
  assumes "list_all (\<lambda>a. \<not> touches_result a) (event_actions evs)" and "\<not> result_event st"
    and "event_wait lib t evs st = (signaled, w, rs, st')"
  shows "\<not> signaled \<and> pending_result st' = pending_result st \<and> \<not> result_event st'"
  using assms
proof (induction lib t evs st arbitrary: signaled w rs st' rule: event_wait.induct)
  case (1 lib t st)
  then show ?case by auto
next
  case (2 lib t evs st)
  show ?case
  proof (cases t)
    case 0
    with "2.prems" show ?thesis by auto
  next
    case (Suc t')
    obtain s2 w2 rs2 st2 where e: "event_wait lib t' evs st = (s2, w2, rs2, st2)"
      by (cases "event_wait lib t' evs st")
    from "2.prems"(2) Suc "2.prems"(1) e
    have "\<not> s2 \<and> pending_result st2 = pending_result st \<and> \<not> result_event st2"
      by (intro "2.IH") simp_all
    moreover from "2.prems"(2,3) Suc e have "signaled = s2" "st' = st2" by simp_all
    ultimately show ?thesis by simp
  qed
next
  case (3 lib t a evs st)
  show ?case
  proof (cases "t = 0")
    case True
    with "3.prems" show ?thesis by auto
  next
    case False
    obtain rs1 st1 where p: "perform lib a st = (rs1, st1)" by (cases "perform lib a st")
    obtain s2 w2 rs2 st2 where e: "event_wait lib t evs st1 = (s2, w2, rs2, st2)"
      by (cases "event_wait lib t evs st1")
    from "3.prems"(1) p "3.prems"(2)
    have st1: "pending_result st1 = pending_result st" "\<not> result_event st1"
      using perform_untouched [of a lib st rs1 st1] by simp_all
    from "3.prems"(2) False p [symmetric] "3.prems"(1) st1(2) e
    have "\<not> s2 \<and> pending_result st2 = pending_result st1 \<and> \<not> result_event st2"
      by (intro "3.IH") simp_all
    moreover from "3.prems"(2,3) False p e have "signaled = s2" "st' = st2" by simp_all
    ultimately show ?thesis using st1 by simp
  qed
qed

lemma command_wait_untouched:
  assumes "list_all (\<lambda>a. \<not> touches_result a) (actions_of sched)" and "\<not> result_event st"
    and "command_wait lib sched st = (signaled, w, rs, st')"
  shows "\<not> signaled \<and> pending_result st' = pending_result st"
proof -
  obtain rs1 st1 where a: "run_actions lib (before_wait sched) st = (rs1, st1)"
    by (cases "run_actions lib (before_wait sched) st")
  obtain s2 w2 rs2 st2 where b: "event_wait lib 30 (during_wait sched) st1 = (s2, w2, rs2, st2)"
    by (cases "event_wait lib 30 (during_wait sched) st1")
  obtain rs3 st3 where c: "run_actions lib (after_wait sched) st2 = (rs3, st3)"
    by (cases "run_actions lib (after_wait sched) st2")
  from assms(1) have q: "list_all (\<lambda>a. \<not> touches_result a) (before_wait sched)"
    "list_all (\<lambda>a. \<not> touches_result a) (event_actions (during_wait sched))"
    "list_all (\<lambda>a. \<not> touches_result a) (after_wait sched)"
    by (simp_all add: actions_of_def)
  from q(1) a assms(2) have 1: "pending_result st1 = pending_result st" "\<not> result_event st1"
    using run_actions_untouched [of "before_wait sched" lib st rs1 st1] by simp_all
  from q(2) 1(2) b have 2: "\<not> s2" "pending_result st2 = pending_result st1"
    using event_wait_untouched [of "during_wait sched" st1 lib 30 s2 w2 rs2 st2] by simp_all
  from q(3) c have 3: "pending_result st3 = pending_result st2"
    using run_actions_untouched [of "after_wait sched" lib st2 rs3 st3] by simp
  from assms(3) a b c have "signaled = s2" "st' = st3" by (simp_all add: command_wait_def)
  with 1 2 3 show ?thesis by simp
qed

lemma poll_falsy:
  assumes "\<not> truthy (pending_command st)"
  shows "CommandHandler_do_GET lib ''/command'' st = (no_content, st)"
  using assms by (simp add: CommandHandler_do_GET_def no_content_def)

lemma perform_poll_falsy:
  assumes "is_poll a" and "\<not> truthy (pending_command st)"
  shows "perform lib a st = ([no_content], st)"
  using assms by (cases a) (simp_all add: poll_falsy)

lemma run_actions_polls:
  assumes "list_all is_poll as" and "\<not> truthy (pending_command st)"
  shows "run_actions lib as st = (replicate (length as) no_content, st)"
  using assms by (induction as) (simp_all add: perform_poll_falsy)

lemma event_wait_polls:
  assumes "list_all is_poll (event_actions evs)" and "\<not> truthy (pending_command st)"
    and "\<not> result_event st"
  shows "\<exists>n. event_wait lib t evs st = (False, t, replicate n no_content, st)"
  using assms
proof (induction lib t evs st rule: event_wait.induct)
  case (1 lib t st)
  then show ?case by simp
next
  case (2 lib t evs st)
  show ?case
  proof (cases t)
    case 0
    with "2.prems" show ?thesis by simp
  next
    case (Suc t')
    from "2.prems"(3) Suc "2.prems"
    have "\<exists>n. event_wait lib t' evs st = (False, t', replicate n no_content, st)"
      by (intro "2.IH") simp_all
    with "2.prems"(3) Suc show ?thesis by auto
  qed
next
  case (3 lib t a evs st)
  show ?case
  proof (cases "t = 0")
    case True
    with "3.prems" show ?thesis by simp
  next
    case False
    from "3.prems" have p: "perform lib a st = ([no_content], st)"
      by (simp add: perform_poll_falsy)
    from "3.prems"(3) False p [symmetric] "3.prems"
    have "\<exists>n. event_wait lib t evs st = (False, t, replicate n no_content, st)"
      by (intro "3.IH") simp_all
    then obtain n where "event_wait lib t evs st = (False, t, replicate n no_content, st)" ..
    with "3.prems"(3) False p
    have "event_wait lib t (Act a # evs) st = (False, t, replicate (Suc n) no_content, st)"
      by simp
    then show ?thesis ..
  qed
qed

lemma command_wait_polls:
  assumes "list_all is_poll (actions_of sched)" and "\<not> truthy (pending_command st)"
    and "\<not> result_event st"
  shows "\<exists>n. command_wait lib sched st = (False, 30, replicate n no_content, st)"
proof -
  from assms(1) have q: "list_all is_poll (before_wait sched)"
    "list_all is_poll (event_actions (during_wait sched))" "list_all is_poll (after_wait sched)"
    by (simp_all add: actions_of_def)
  from q(2) assms(2,3)
  obtain n where "event_wait lib 30 (during_wait sched) st = (False, 30, replicate n no_content, st)"
    using event_wait_polls [of "during_wait sched" st lib 30] by auto
  with q(1,3) assms(2)
  have "command_wait lib sched st =
          (False, 30, replicate (length (before_wait sched) + n + length (after_wait sched)) no_content, st)"
    by (simp add: command_wait_def run_actions_polls replicate_add)
  then show ?thesis ..
qed

lemma perform_keeps_command:
  assumes "\<not> touches_command a" and "perform lib a st = (rs, st')"
  shows "pending_command st' = pending_command st"
  using assms
  by (cases a) (auto simp: post_result_store_def post_command_collect_def)

lemma run_actions_keeps_command:
  assumes "list_all (\<lambda>a. \<not> touches_command a) as" and "run_actions lib as st = (rs, st')"
  shows "pending_command st' = pending_command st"
  using assms
proof (induction as arbitrary: st rs st')
  case Nil
  then show ?case by simp
next
  case (Cons a as)
  obtain rs1 st1 where p: "perform lib a st = (rs1, st1)" by (cases "perform lib a st")
  obtain rs2 st2 where r: "run_actions lib as st1 = (rs2, st2)" by (cases "run_actions lib as st1")
  from Cons.prems p r have "st' = st2" by simp
  moreover from Cons.prems(1) p have "pending_command st1 = pending_command st"
    using perform_keeps_command [of a lib st rs1 st1] by simp
  moreover from Cons.prems(1) r have "pending_command st2 = pending_command st1"
    using Cons.IH [of st1 rs2 st2] by simp
  ultimately show ?case by simp
qed

lemma event_wait_keeps_command:
  assumes "list_all (\<lambda>a. \<not> touches_command a) (event_actions evs)"
    and "event_wait lib t evs st = (signaled, w, rs, st')"
  shows "pending_command st' = pending_command st"
  using assms
proof (induction lib t evs st arbitrary: signaled w rs st' rule: event_wait.induct)
  case (1 lib t st)
  then show ?case by (auto split: if_splits)
next
  case (2 lib t evs st)
  show ?case
  proof (cases "result_event st \<or> t = 0")
    case True
    with "2.prems" show ?thesis by (auto split: if_splits)
  next
    case False
    then obtain t' where t: "t = Suc t'" by (cases t) auto
    obtain s2 w2 rs2 st2 where e: "event_wait lib t' evs st = (s2, w2, rs2, st2)"
      by (cases "event_wait lib t' evs st")
    from False t "2.prems"(1) e have "pending_command st2 = pending_command st"
      by (intro "2.IH") simp_all
    moreover from "2.prems"(2) False t e have "st' = st2" by simp
    ultimately show ?thesis by simp
  qed
next
  case (3 lib t a evs st)
  show ?case
  proof (cases "result_event st \<or> t = 0")
    case True
    with "3.prems" show ?thesis by (auto split: if_splits)
  next
    case False
    obtain rs1 st1 where p: "perform lib a st = (rs1, st1)" by (cases "perform lib a st")
    obtain s2 w2 rs2 st2 where e: "event_wait lib t evs st1 = (s2, w2, rs2, st2)"
      by (cases "event_wait lib t evs st1")
    from "3.prems"(1) p have 1: "pending_command st1 = pending_command st"
      using perform_keeps_command [of a lib st rs1 st1] by simp
    from False p [symmetric] "3.prems"(1) e have "pending_command st2 = pending_command st1"
      by (intro "3.IH") simp_all
    moreover from "3.prems"(2) False p e have "st' = st2" by simp
    ultimately show ?thesis using 1 by simp
  qed
qed

lemma command_wait_keeps_command:
  assumes "list_all (\<lambda>a. \<not> touches_command a) (actions_of sched)"
    and "command_wait lib sched st = (signaled, w, rs, st')"
  shows "pending_command st' = pending_command st"
proof -
  obtain rs1 st1 where a: "run_actions lib (before_wait sched) st = (rs1, st1)"
    by (cases "run_actions lib (before_wait sched) st")
  obtain s2 w2 rs2 st2 where b: "event_wait lib 30 (during_wait sched) st1 = (s2, w2, rs2, st2)"
    by (cases "event_wait lib 30 (during_wait sched) st1")
  obtain rs3 st3 where c: "run_actions lib (after_wait sched) st2 = (rs3, st3)"
    by (cases "run_actions lib (after_wait sched) st2")
  from assms(1) have q: "list_all (\<lambda>a. \<not> touches_command a) (before_wait sched)"
    "list_all (\<lambda>a. \<not> touches_command a) (event_actions (during_wait sched))"
    "list_all (\<lambda>a. \<not> touches_command a) (after_wait sched)"
    by (simp_all add: actions_of_def)
  from q(1) a have 1: "pending_command st1 = pending_command st"
    by (rule run_actions_keeps_command)
  from q(2) b have 2: "pending_command st2 = pending_command st1"
    by (rule event_wait_keeps_command)
  from q(3) c have 3: "pending_command st3 = pending_command st2"
    by (rule run_actions_keeps_command)
  from assms(2) a b c have "st' = st3" by (simp add: command_wait_def)
  with 1 2 3 show ?thesis by simp
qed

lemma command_wait_poll_first:
  assumes "truthy (pending_command st)"
  shows "take 1 (fst (snd (snd (command_wait lib (sched\<lparr>before_wait := Poll # before_wait sched\<rparr>) st)))) =
           [\<lparr>status = 200, headers = content_type_json # cors_headers,
             body = utf8_encode lib (json_dumps lib (pending_command st))\<rparr>]"
  using assms
  by (simp add: command_wait_def CommandHandler_do_GET_def split: prod.splits)

lemma do_POST_command:
  assumes "read_body lib req = Inr text"
    and "(if text \<noteq> [] then json_loads lib text else Inr (JObject [])) = Inr data"
    and "path req = ''/command''"
    and "command_wait lib sched (post_command_submit data st) = (signaled, w, rs, st4)"
  shows "CommandHandler_do_POST lib req sched st =
           \<lparr>outcome = Inr (command_response lib (pending_result st4)),
            final = st4\<lparr>pending_result := JNull\<rparr>, waited = w, served = rs\<rparr>"
  using assms by (simp add: CommandHandler_do_POST_def post_command_collect_def)

section \<open>The handlers of the command server\<close>

text \<open>
  C1. A \<^verbatim>\<open>POST /command\<close> whose body is read, is not empty and is valid JSON: when the wait
  ends without the event having been seen set and the stored result is then absent
  (\<^verbatim>\<open>None\<close>), the answer has status 200 and the body \<^verbatim>\<open>json.dumps({"error": "timeout"})\<close>,
  and the handler has waited the 30 units of the timeout.
\<close>

theorem timeout_response:
  assumes "read_body lib req = Inr text" and "text \<noteq> []" and "json_loads lib text = Inr data"
    and "path req = ''/command''"
    and "command_wait lib sched (post_command_submit data st) = (False, w, rs, st4)"
    and "pending_result st4 = JNull"
  shows "outcome (CommandHandler_do_POST lib req sched st) =
           Inr \<lparr>status = 200, headers = content_type_json # cors_headers,
                body = utf8_encode lib (json_dumps lib (JObject [(''error'', JString ''timeout'')]))\<rparr>
         \<and> waited (CommandHandler_do_POST lib req sched st) = 30"
proof -
  from assms(5) have "w = 30" by (rule command_wait_unsignaled)
  moreover have "(if text \<noteq> [] then json_loads lib text else Inr (JObject [])) = Inr data"
    using assms(2,3) by simp
  with assms(1)
  have "CommandHandler_do_POST lib req sched st =
           \<lparr>outcome = Inr (command_response lib (pending_result st4)),
            final = st4\<lparr>pending_result := JNull\<rparr>, waited = w, served = rs\<rparr>"
    using assms(4,5) by (rule do_POST_command)
  ultimately show ?thesis using assms(6) by (simp add: command_response_def)
qed

theorem timeout_response_witness:
  \<open>outcome (CommandHandler_do_POST example_lib
      \<lparr>path = ''/command'', content_length = Some ''31'',
       rfile = ''{"tool":"screenshot","args":{}}''\<rparr>
      \<lparr>before_wait = [], during_wait = [Act Poll, Tick, Tick], after_wait = []\<rparr>
      initial_state) =
     Inr \<lparr>status = 200, headers = content_type_json # cors_headers,
          body = ''{"error": "timeout"}''\<rparr>
   \<and> waited (CommandHandler_do_POST example_lib
      \<lparr>path = ''/command'', content_length = Some ''31'',
       rfile = ''{"tool":"screenshot","args":{}}''\<rparr>
      \<lparr>before_wait = [], during_wait = [Act Poll, Tick, Tick], after_wait = []\<rparr>
      initial_state) = 30\<close>
proof -
  let ?req = \<open>\<lparr>path = ''/command'', content_length = Some ''31'',
       rfile = ''{"tool":"screenshot","args":{}}''\<rparr>\<close>
  let ?data = "JObject [(''tool'', JString ''screenshot''), (''args'', JObject [])]"
  let ?sched = "\<lparr>before_wait = [], during_wait = [Act Poll, Tick, Tick], after_wait = []\<rparr>"
  have 1: \<open>read_body example_lib ?req = Inr ''{"tool":"screenshot","args":{}}''\<close>
    by (simp add: example_simps)
  have 2: \<open>''{"tool":"screenshot","args":{}}'' \<noteq> []\<close> by simp
  have 3: \<open>json_loads example_lib ''{"tool":"screenshot","args":{}}'' = Inr ?data\<close>
    by (simp add: example_simps)
  have 4: "path ?req = ''/command''" by simp
  have 5: "command_wait example_lib ?sched (post_command_submit ?data initial_state) =
             (False, 30,
              [\<lparr>status = 200, headers = content_type_json # cors_headers,
                body = utf8_encode example_lib (json_dumps example_lib ?data)\<rparr>],
              initial_state)"
    by (simp add: command_wait_def CommandHandler_do_GET_def post_command_submit_def
        initial_state_def)
  have 6: "pending_result initial_state = JNull" by (simp add: initial_state_def)
  from timeout_response [OF 1 2 3 4 5 6] show ?thesis
    by (simp add: example_simps)
qed

text \<open>
  C2, as claimed, fails: after \<^verbatim>\<open>POST /command\<close> with the body \<^verbatim>\<open>{}\<close> the pending command is
  the empty dictionary, not \<^verbatim>\<open>None\<close>, and \<^verbatim>\<open>GET /command\<close> answers 204 and leaves it there.
\<close>

theorem poll_pending_counterexample:
  "pending_command (post_command_submit (JObject []) initial_state) \<noteq> JNull
   \<and> CommandHandler_do_GET example_lib ''/command'' (post_command_submit (JObject []) initial_state) =
       (\<lparr>status = 204, headers = cors_headers, body = []\<rparr>,
        post_command_submit (JObject []) initial_state)"
  by (simp add: CommandHandler_do_GET_def post_command_submit_def initial_state_def)

text \<open>
  C2, amended. In every state whose pending command is truthy, \<^verbatim>\<open>GET /command\<close> answers 200
  with that command as JSON and resets the pending command to \<^verbatim>\<open>None\<close>, and a
  \<^verbatim>\<open>GET /command\<close> right after it answers 204 with no body.
\<close>

theorem poll_delivers_once:
  assumes "truthy (pending_command st)"
  shows "CommandHandler_do_GET lib ''/command'' st =
           (\<lparr>status = 200, headers = content_type_json # cors_headers,
             body = utf8_encode lib (json_dumps lib (pending_command st))\<rparr>,
            st\<lparr>pending_command := JNull\<rparr>)
         \<and> CommandHandler_do_GET lib ''/command'' (st\<lparr>pending_command := JNull\<rparr>) =
           (\<lparr>status = 204, headers = cors_headers, body = []\<rparr>, st\<lparr>pending_command := JNull\<rparr>)"
  using assms by (simp add: CommandHandler_do_GET_def)

theorem poll_delivers_once_witness:
  \<open>truthy (pending_command (post_command_submit (JObject [(''ok'', JBool True)]) initial_state))
   \<and> CommandHandler_do_GET example_lib ''/command''
        (post_command_submit (JObject [(''ok'', JBool True)]) initial_state) =
       (\<lparr>status = 200, headers = content_type_json # cors_headers, body = ''{"ok": true}''\<rparr>,
        initial_state)
   \<and> CommandHandler_do_GET example_lib ''/command'' initial_state =
       (\<lparr>status = 204, headers = cors_headers, body = []\<rparr>, initial_state)\<close>
proof -
  let ?st = "post_command_submit (JObject [(''ok'', JBool True)]) initial_state"
  have t: "truthy (pending_command ?st)" by (simp add: post_command_submit_def)
  have "?st\<lparr>pending_command := JNull\<rparr> = initial_state"
    by (simp add: post_command_submit_def initial_state_def)
  with poll_delivers_once [OF t, of example_lib] t show ?thesis
    by (simp add: post_command_submit_def example_simps)
qed

text \<open>
  C4. The relay has one slot for the pending command. Take a \<^verbatim>\<open>POST /command\<close> whose body is
  read and parses to \<open>c2\<close>, handled in a state where a first command \<open>c1\<close> is pending.
  Whatever the other threads do, everything the handler yields (its answer, the final state,
  the time waited, the answers to the others) is what it yields when the slot holds anything
  else: nothing of \<open>c1\<close> is kept. When no other thread polls or submits meanwhile, the slot
  holds \<open>c2\<close> at the end. When \<open>c2\<close> is truthy, a poll right after the submission is answered
  with \<open>c2\<close>. And seen from the first request's wait, the step that submits \<open>c2\<close> after
  \<open>c1\<close> gives the state that submitting \<open>c2\<close> alone gives.
\<close>

theorem second_submission_overwrites:
  assumes "read_body lib req = Inr text"
    and "(if text \<noteq> [] then json_loads lib text else Inr (JObject [])) = Inr c2"
    and "path req = ''/command''"
  shows "CommandHandler_do_POST lib req sched (st\<lparr>pending_command := c1\<rparr>) =
           CommandHandler_do_POST lib req sched st
         \<and> (list_all (\<lambda>a. \<not> touches_command a) (actions_of sched) \<longrightarrow>
              pending_command (final (CommandHandler_do_POST lib req sched
                                        (st\<lparr>pending_command := c1\<rparr>))) = c2)
         \<and> (truthy c2 \<longrightarrow>
              take 1 (served (CommandHandler_do_POST lib req
                                (sched\<lparr>before_wait := Poll # before_wait sched\<rparr>)
                                (st\<lparr>pending_command := c1\<rparr>))) =
                [\<lparr>status = 200, headers = content_type_json # cors_headers,
                  body = utf8_encode lib (json_dumps lib c2)\<rparr>])
         \<and> perform lib (Submit c2) (post_command_submit c1 st) = ([], post_command_submit c2 st)"
proof (intro conjI impI)
  have same: "post_command_submit c2 (st\<lparr>pending_command := c1\<rparr>) = post_command_submit c2 st"
    by (simp add: post_command_submit_def)
  obtain signaled w rs st4
    where cw: "command_wait lib sched (post_command_submit c2 st) = (signaled, w, rs, st4)"
    by (cases "command_wait lib sched (post_command_submit c2 st)")
  with assms
  have "CommandHandler_do_POST lib req sched st =
           \<lparr>outcome = Inr (command_response lib (pending_result st4)),
            final = st4\<lparr>pending_result := JNull\<rparr>, waited = w, served = rs\<rparr>"
    by (intro do_POST_command)
  moreover from cw same
  have "command_wait lib sched (post_command_submit c2 (st\<lparr>pending_command := c1\<rparr>)) =
          (signaled, w, rs, st4)"
    by simp
  with assms
  have "CommandHandler_do_POST lib req sched (st\<lparr>pending_command := c1\<rparr>) =
           \<lparr>outcome = Inr (command_response lib (pending_result st4)),
            final = st4\<lparr>pending_result := JNull\<rparr>, waited = w, served = rs\<rparr>"
    by (intro do_POST_command)
  ultimately show "CommandHandler_do_POST lib req sched (st\<lparr>pending_command := c1\<rparr>) =
           CommandHandler_do_POST lib req sched st"
    by simp
  show "perform lib (Submit c2) (post_command_submit c1 st) = ([], post_command_submit c2 st)"
    by (simp add: post_command_submit_def)
  {
    fix sched'
    let ?st1 = "post_command_submit c2 (st\<lparr>pending_command := c1\<rparr>)"
    obtain signaled w rs st4 where cw: "command_wait lib sched' ?st1 = (signaled, w, rs, st4)"
      by (cases "command_wait lib sched' ?st1")
    with assms
    have "CommandHandler_do_POST lib req sched' (st\<lparr>pending_command := c1\<rparr>) =
           \<lparr>outcome = Inr (command_response lib (pending_result st4)),
            final = st4\<lparr>pending_result := JNull\<rparr>, waited = w, served = rs\<rparr>"
      by (intro do_POST_command)
    with cw
    have "final (CommandHandler_do_POST lib req sched' (st\<lparr>pending_command := c1\<rparr>)) =
            (snd (snd (snd (command_wait lib sched' ?st1))))\<lparr>pending_result := JNull\<rparr>"
      and "served (CommandHandler_do_POST lib req sched' (st\<lparr>pending_command := c1\<rparr>)) =
            fst (snd (snd (command_wait lib sched' ?st1)))"
      by simp_all
  }
  note handled = this
  have c2: "pending_command (post_command_submit c2 (st\<lparr>pending_command := c1\<rparr>)) = c2"
    by (simp add: post_command_submit_def)
  {
    assume quiet: "list_all (\<lambda>a. \<not> touches_command a) (actions_of sched)"
    let ?st1 = "post_command_submit c2 (st\<lparr>pending_command := c1\<rparr>)"
    obtain signaled w rs st4 where cw: "command_wait lib sched ?st1 = (signaled, w, rs, st4)"
      by (cases "command_wait lib sched ?st1")
    from quiet cw have "pending_command st4 = pending_command ?st1"
      by (rule command_wait_keeps_command)
    with cw c2 handled(1) [of sched]
    show "pending_command (final (CommandHandler_do_POST lib req sched
                                        (st\<lparr>pending_command := c1\<rparr>))) = c2"
      by simp
  }
  {
    assume "truthy c2"
    with c2 have "truthy (pending_command (post_command_submit c2 (st\<lparr>pending_command := c1\<rparr>)))"
      by simp
    then have "take 1 (fst (snd (snd (command_wait lib
                 (sched\<lparr>before_wait := Poll # before_wait sched\<rparr>)
                 (post_command_submit c2 (st\<lparr>pending_command := c1\<rparr>)))))) =
           [\<lparr>status = 200, headers = content_type_json # cors_headers,
             body = utf8_encode lib (json_dumps lib
                      (pending_command (post_command_submit c2 (st\<lparr>pending_command := c1\<rparr>))))\<rparr>]"
      by (rule command_wait_poll_first)
    with c2 handled(2) [of "sched\<lparr>before_wait := Poll # before_wait sched\<rparr>"]
    show "take 1 (served (CommandHandler_do_POST lib req
                                (sched\<lparr>before_wait := Poll # before_wait sched\<rparr>)
                                (st\<lparr>pending_command := c1\<rparr>))) =
                [\<lparr>status = 200, headers = content_type_json # cors_headers,
                  body = utf8_encode lib (json_dumps lib c2)\<rparr>]"
      by simp
  }
qed

theorem second_submission_overwrites_witness:
  \<open>pending_command (final (CommandHandler_do_POST example_lib
      \<lparr>path = ''/command'', content_length = Some ''31'',
       rfile = ''{"tool":"screenshot","args":{}}''\<rparr>
      \<lparr>before_wait = [], during_wait = [Tick, Act (Deliver (JInt 12))], after_wait = []\<rparr>
      (initial_state\<lparr>pending_command := JObject [(''ok'', JBool True)]\<rparr>))) =
     JObject [(''tool'', JString ''screenshot''), (''args'', JObject [])]
   \<and> take 1 (served (CommandHandler_do_POST example_lib
      \<lparr>path = ''/command'', content_length = Some ''31'',
       rfile = ''{"tool":"screenshot","args":{}}''\<rparr>
      \<lparr>before_wait = [Poll], during_wait = [Tick, Act (Deliver (JInt 12))], after_wait = []\<rparr>
      (initial_state\<lparr>pending_command := JObject [(''ok'', JBool True)]\<rparr>))) =
     [\<lparr>status = 200, headers = content_type_json # cors_headers,
       body = ''{"tool": "screenshot", "args": {}}''\<rparr>]\<close>
proof -
  let ?req = \<open>\<lparr>path = ''/command'', content_length = Some ''31'',
       rfile = ''{"tool":"screenshot","args":{}}''\<rparr>\<close>
  let ?c2 = "JObject [(''tool'', JString ''screenshot''), (''args'', JObject [])]"
  let ?sched = "\<lparr>before_wait = [], during_wait = [Tick, Act (Deliver (JInt 12))], after_wait = []\<rparr>"
  have 1: \<open>read_body example_lib ?req = Inr ''{"tool":"screenshot","args":{}}''\<close>
    by (simp add: example_simps)
  have 2: \<open>(if ''{"tool":"screenshot","args":{}}'' \<noteq> []
             then json_loads example_lib ''{"tool":"screenshot","args":{}}''
             else Inr (JObject [])) = Inr ?c2\<close>
    by (simp add: example_simps)
  have 3: "path ?req = ''/command''" by simp
  have 4: "list_all (\<lambda>a. \<not> touches_command a) (actions_of ?sched)"
    by (simp add: actions_of_def)
  have 5: "truthy ?c2" by simp
  note overwrites = second_submission_overwrites
         [OF 1 2 3, where sched = ?sched and st = initial_state
            and ?c1.0 = "JObject [(''ok'', JBool True)]"]
  have b: "pending_command (final (CommandHandler_do_POST example_lib ?req ?sched
             (initial_state\<lparr>pending_command := JObject [(''ok'', JBool True)]\<rparr>))) = ?c2"
    by (rule overwrites [THEN conjunct2, THEN conjunct1, rule_format, OF 4])
  have "take 1 (served (CommandHandler_do_POST example_lib ?req
             (?sched\<lparr>before_wait := Poll # before_wait ?sched\<rparr>)
             (initial_state\<lparr>pending_command := JObject [(''ok'', JBool True)]\<rparr>))) =
          [\<lparr>status = 200, headers = content_type_json # cors_headers,
            body = utf8_encode example_lib (json_dumps example_lib ?c2)\<rparr>]"
    by (rule overwrites [THEN conjunct2, THEN conjunct2, THEN conjunct1, rule_format, OF 5])
  then have c: \<open>take 1 (served (CommandHandler_do_POST example_lib ?req
             \<lparr>before_wait = [Poll], during_wait = [Tick, Act (Deliver (JInt 12))], after_wait = []\<rparr>
             (initial_state\<lparr>pending_command := JObject [(''ok'', JBool True)]\<rparr>))) =
          [\<lparr>status = 200, headers = content_type_json # cors_headers,
            body = ''{"tool": "screenshot", "args": {}}''\<rparr>]\<close>
    by (simp add: example_lib_def example_dumps_def)
  from b c show ?thesis by (rule conjI)
qed

text \<open>
  C8, as claimed, fails. A \<^verbatim>\<open>POST /result\<close> with an empty body, which is not JSON, is answered
  200 and stores the result \<^verbatim>\<open>{}\<close>; the command server's 400 carries no body; and a body
  that is not UTF-8 leaves the command server's handler with a \<^verbatim>\<open>UnicodeDecodeError\<close> and
  no response.
\<close>

theorem malformed_json_counterexample:
  "CommandHandler_do_POST example_lib
      \<lparr>path = ''/result'', content_length = None, rfile = []\<rparr> idle initial_state =
     \<lparr>outcome = Inr \<lparr>status = 200, headers = cors_headers, body = []\<rparr>,
      final = \<lparr>pending_command = JNull, pending_result = JObject [], result_event = True\<rparr>,
      waited = 0, served = []\<rparr>
   \<and> outcome (CommandHandler_do_POST example_lib
      \<lparr>path = ''/command'', content_length = Some ''1'', rfile = ''{''\<rparr> idle initial_state) =
     Inr \<lparr>status = 400, headers = [], body = []\<rparr>
   \<and> outcome (CommandHandler_do_POST example_lib
      \<lparr>path = ''/command'', content_length = Some ''1'', rfile = [CHR 0xFF]\<rparr> idle initial_state) =
     Inl (UnicodeDecodeError ([CHR 0x27] @ ''utf-8'' @ [CHR 0x27] @ '' codec can'' @ [CHR 0x27]
            @ ''t decode byte 0xff in position 0: invalid start byte''))"
  by (simp add: CommandHandler_do_POST_def result_response_def post_result_store_def
      initial_state_def example_simps)

text \<open>
  C8, amended. For a \<^verbatim>\<open>POST\<close> whose body is read and decoded as text. When the text is not
  empty and \<^verbatim>\<open>json.loads\<close> rejects it, the command server, on any path, answers 400 and
  leaves its state as it was. When \<^verbatim>\<open>json.loads\<close> rejects the text, empty or not, the native
  host answers 400 with the JSON body \<^verbatim>\<open>{"success": false, "error": "Invalid JSON: ..."}\<close>
  and leaves both streams as they were. When the text is empty, the command server takes
  the body as \<^verbatim>\<open>{}\<close> and handles the request as usual: \<^verbatim>\<open>/command\<close> submits \<^verbatim>\<open>{}\<close> and
  waits, \<^verbatim>\<open>/result\<close> stores \<^verbatim>\<open>{}\<close>, sets the event and answers 200, any other path answers 404.
\<close>

theorem malformed_json_rejected:
  assumes "read_body lib req = Inr text"
  shows "(text \<noteq> [] \<and> json_loads lib text = Inl m \<longrightarrow>
            (case outcome (CommandHandler_do_POST lib req sched st) of
               Inl e \<Rightarrow> False
             | Inr r \<Rightarrow> status r = 400)
            \<and> final (CommandHandler_do_POST lib req sched st) = st)
         \<and> (json_loads lib text = Inl m \<longrightarrow>
              NativeHostHandler_do_POST lib req io =
                (error_response lib 400 (''Invalid JSON: '' @ m), io))
         \<and> (text = [] \<longrightarrow>
              CommandHandler_do_POST lib req sched st =
                (if path req = ''/command'' then
                   (case command_wait lib sched (post_command_submit (JObject []) st) of
                      (signaled, w, rs, st4) \<Rightarrow>
                        \<lparr>outcome = Inr (command_response lib (pending_result st4)),
                         final = st4\<lparr>pending_result := JNull\<rparr>, waited = w, served = rs\<rparr>)
                 else if path req = ''/result'' then
                   \<lparr>outcome = Inr \<lparr>status = 200, headers = cors_headers, body = []\<rparr>,
                    final = st\<lparr>pending_result := JObject [], result_event := True\<rparr>,
                    waited = 0, served = []\<rparr>
                 else
                   \<lparr>outcome = Inr \<lparr>status = 404, headers = [], body = []\<rparr>,
                    final = st, waited = 0, served = []\<rparr>))"
  using assms
  by (simp add: CommandHandler_do_POST_def NativeHostHandler_do_POST_def NativeHostHandler_try_def
      post_command_collect_def post_result_store_def result_response_def split: prod.splits)

theorem malformed_json_rejected_witness:
  \<open>outcome (CommandHandler_do_POST example_lib
      \<lparr>path = ''/command'', content_length = Some ''1'', rfile = ''{''\<rparr> idle initial_state) =
     Inr \<lparr>status = 400, headers = [], body = []\<rparr>
   \<and> final (CommandHandler_do_POST example_lib
      \<lparr>path = ''/command'', content_length = Some ''1'', rfile = ''{''\<rparr> idle initial_state) =
     initial_state
   \<and> NativeHostHandler_do_POST example_lib
      \<lparr>path = ''/command'', content_length = Some ''1'', rfile = ''{''\<rparr>
      \<lparr>stdin = [], stdout = []\<rparr> =
     (\<lparr>status = 400, headers = content_type_json # cors_headers,
       body = ''{"success": false, "error": "Invalid JSON: Expecting property name enclosed in double quotes: line 1 column 2 (char 1)"}''\<rparr>,
      \<lparr>stdin = [], stdout = []\<rparr>)
   \<and> CommandHandler_do_POST example_lib
      \<lparr>path = ''/result'', content_length = None, rfile = []\<rparr> idle initial_state =
     \<lparr>outcome = Inr \<lparr>status = 200, headers = cors_headers, body = []\<rparr>,
      final = \<lparr>pending_command = JNull, pending_result = JObject [], result_event = True\<rparr>,
      waited = 0, served = []\<rparr>\<close>
proof -
  let ?req = "\<lparr>path = ''/command'', content_length = Some ''1'', rfile = ''{''\<rparr>"
  let ?empty = "\<lparr>path = ''/result'', content_length = None, rfile = []\<rparr>"
  let ?m = "''Expecting property name enclosed in double quotes: line 1 column 2 (char 1)''"
  have 1: "read_body example_lib ?req = Inr ''{''" by (simp add: example_simps)
  have 2: "''{'' \<noteq> [] \<and> json_loads example_lib ''{'' = Inl ?m"
    by (simp add: example_simps)
  have 3: "outcome (CommandHandler_do_POST example_lib ?req idle initial_state) =
     Inr \<lparr>status = 400, headers = [], body = []\<rparr>"
    by (simp add: CommandHandler_do_POST_def example_simps)
  have 4: "read_body example_lib ?empty = Inr []" by (simp add: example_simps)
  have 5: "path ?empty = ''/result''" by simp
  from malformed_json_rejected [OF 1, of ?m idle initial_state "\<lparr>stdin = [], stdout = []\<rparr>"] 2 3
  have a: "final (CommandHandler_do_POST example_lib ?req idle initial_state) = initial_state"
    and b: "NativeHostHandler_do_POST example_lib ?req \<lparr>stdin = [], stdout = []\<rparr> =
              (error_response example_lib 400 (''Invalid JSON: '' @ ?m), \<lparr>stdin = [], stdout = []\<rparr>)"
    by simp_all
  from malformed_json_rejected [OF 4, of ?m idle initial_state "\<lparr>stdin = [], stdout = []\<rparr>"] 5
  have c: "CommandHandler_do_POST example_lib ?empty idle initial_state =
     \<lparr>outcome = Inr \<lparr>status = 200, headers = cors_headers, body = []\<rparr>,
      final = \<lparr>pending_command = JNull, pending_result = JObject [], result_event = True\<rparr>,
      waited = 0, served = []\<rparr>"
    by (simp add: initial_state_def)
  from b have "NativeHostHandler_do_POST example_lib ?req \<lparr>stdin = [], stdout = []\<rparr> =
     (\<lparr>status = 400, headers = content_type_json # cors_headers,
       body = ''{\"success\": false, \"error\": \"Invalid JSON: Expecting property name enclosed in double quotes: line 1 column 2 (char 1)\"}''\<rparr>,
      \<lparr>stdin = [], stdout = []\<rparr>)"
    by (simp add: error_response_def example_simps)
  with 3 a c show ?thesis by simp
qed

text \<open>
  C9, as claimed, fails when the stale result is falsy: after a \<^verbatim>\<open>POST /result\<close> with the
  body \<^verbatim>\<open>{}\<close>, a \<^verbatim>\<open>POST /command\<close> is answered \<^verbatim>\<open>{"error": "timeout"}\<close>, not \<^verbatim>\<open>{}\<close>.
\<close>

theorem stale_result_counterexample:
  \<open>final (CommandHandler_do_POST example_lib
      \<lparr>path = ''/result'', content_length = Some ''2'', rfile = ''{}''\<rparr> idle initial_state) =
     post_result_store (JObject []) initial_state
   \<and> outcome (CommandHandler_do_POST example_lib
      \<lparr>path = ''/command'', content_length = Some ''31'',
       rfile = ''{"tool":"screenshot","args":{}}''\<rparr> idle
      (post_result_store (JObject []) initial_state)) =
     Inr \<lparr>status = 200, headers = content_type_json # cors_headers,
          body = ''{"error": "timeout"}''\<rparr>\<close>
  by (simp add: CommandHandler_do_POST_def command_wait_def idle_def post_command_submit_def
      post_command_collect_def post_result_store_def command_response_def initial_state_def
      example_simps)

text \<open>
  C9, amended. After a \<^verbatim>\<open>POST /result\<close> has stored \<open>R\<close>, a \<^verbatim>\<open>POST /command\<close> during which no
  other request stores or takes a result waits the full 30 units, is answered 200 with
  \<open>R\<close> as its body when \<open>R\<close> is truthy and with \<^verbatim>\<open>{"error": "timeout"}\<close> when \<open>R\<close> is falsy,
  and leaves no stored result.
\<close>

theorem stale_result_returned:
  assumes "read_body lib req = Inr text"
    and "(if text \<noteq> [] then json_loads lib text else Inr (JObject [])) = Inr data"
    and "path req = ''/command''"
    and "list_all (\<lambda>a. \<not> touches_result a) (actions_of sched)"
  shows "outcome (CommandHandler_do_POST lib req sched (post_result_store R st0)) =
           Inr \<lparr>status = 200, headers = content_type_json # cors_headers,
                body = utf8_encode lib (json_dumps lib
                         (if truthy R then R else JObject [(''error'', JString ''timeout'')]))\<rparr>
         \<and> waited (CommandHandler_do_POST lib req sched (post_result_store R st0)) = 30
         \<and> pending_result (final (CommandHandler_do_POST lib req sched (post_result_store R st0))) = JNull"
proof -
  let ?st = "post_result_store R st0"
  obtain signaled w rs st4
    where cw: "command_wait lib sched (post_command_submit data ?st) = (signaled, w, rs, st4)"
    by (cases "command_wait lib sched (post_command_submit data ?st)")
  have "\<not> result_event (post_command_submit data ?st)"
    by (simp add: post_command_submit_def)
  with assms(4) cw have "\<not> signaled" and "pending_result st4 = pending_result (post_command_submit data ?st)"
    using command_wait_untouched [of sched "post_command_submit data ?st" lib signaled w rs st4]
    by simp_all
  then have r: "pending_result st4 = R" and s: "signaled = False"
    by (simp_all add: post_command_submit_def post_result_store_def)
  from cw s have "w = 30" by (simp add: command_wait_unsignaled)
  moreover from assms(1-3) cw
  have "CommandHandler_do_POST lib req sched ?st =
           \<lparr>outcome = Inr (command_response lib (pending_result st4)),
            final = st4\<lparr>pending_result := JNull\<rparr>, waited = w, served = rs\<rparr>"
    by (rule do_POST_command)
  ultimately show ?thesis using r by (simp add: command_response_def)
qed

theorem stale_result_returned_witness:
  \<open>outcome (CommandHandler_do_POST example_lib
      \<lparr>path = ''/command'', content_length = Some ''31'',
       rfile = ''{"tool":"screenshot","args":{}}''\<rparr>
      \<lparr>before_wait = [], during_wait = [Act Poll, Tick], after_wait = [Submit (JInt 12)]\<rparr>
      (post_result_store (JObject [(''ok'', JBool True)]) initial_state)) =
     Inr \<lparr>status = 200, headers = content_type_json # cors_headers, body = ''{"ok": true}''\<rparr>
   \<and> waited (CommandHandler_do_POST example_lib
      \<lparr>path = ''/command'', content_length = Some ''31'',
       rfile = ''{"tool":"screenshot","args":{}}''\<rparr>
      \<lparr>before_wait = [], during_wait = [Act Poll, Tick], after_wait = [Submit (JInt 12)]\<rparr>
      (post_result_store (JObject [(''ok'', JBool True)]) initial_state)) = 30\<close>
proof -
  let ?req = \<open>\<lparr>path = ''/command'', content_length = Some ''31'',
       rfile = ''{"tool":"screenshot","args":{}}''\<rparr>\<close>
  let ?data = "JObject [(''tool'', JString ''screenshot''), (''args'', JObject [])]"
  let ?sched = "\<lparr>before_wait = [], during_wait = [Act Poll, Tick], after_wait = [Submit (JInt 12)]\<rparr>"
  have 1: \<open>read_body example_lib ?req = Inr ''{"tool":"screenshot","args":{}}''\<close>
    by (simp add: example_simps)
  have 2: \<open>(if ''{"tool":"screenshot","args":{}}'' \<noteq> []
             then json_loads example_lib ''{"tool":"screenshot","args":{}}''
             else Inr (JObject [])) = Inr ?data\<close>
    by (simp add: example_simps)
  have 3: "path ?req = ''/command''" by simp
  have 4: "list_all (\<lambda>a. \<not> touches_result a) (actions_of ?sched)"
    by (simp add: actions_of_def)
  from stale_result_returned [OF 1 2 3 4, of "JObject [(''ok'', JBool True)]" initial_state]
  show ?thesis by (simp add: example_simps)
qed

text \<open>
  C10. When the body of a \<^verbatim>\<open>POST /command\<close> is empty or parses to a falsy value, a
  \<^verbatim>\<open>GET /command\<close> after the submission answers 204 and leaves the command where it is; and
  when the other threads only poll while the request is handled, every poll is answered
  204 with no body, the submitting handler waits the full 30 units, and the command is
  still pending at the end.
\<close>

theorem falsy_command_not_delivered:
  assumes "read_body lib req = Inr text"
    and "(if text \<noteq> [] then json_loads lib text else Inr (JObject [])) = Inr data"
    and "path req = ''/command''"
    and "\<not> truthy data"
    and "list_all is_poll (actions_of sched)"
  shows "CommandHandler_do_GET lib ''/command'' (post_command_submit data st) =
           (\<lparr>status = 204, headers = cors_headers, body = []\<rparr>, post_command_submit data st)
         \<and> waited (CommandHandler_do_POST lib req sched st) = 30
         \<and> list_all (\<lambda>r. status r = 204 \<and> body r = []) (served (CommandHandler_do_POST lib req sched st))
         \<and> pending_command (final (CommandHandler_do_POST lib req sched st)) = data"
proof -
  let ?st = "post_command_submit data st"
  from assms(4) have f: "\<not> truthy (pending_command ?st)" and e: "\<not> result_event ?st"
    by (simp_all add: post_command_submit_def)
  from assms(5) f e obtain n
    where cw: "command_wait lib sched ?st = (False, 30, replicate n no_content, ?st)"
    using command_wait_polls [of sched ?st lib] by auto
  from assms(1-3) cw
  have "CommandHandler_do_POST lib req sched st =
           \<lparr>outcome = Inr (command_response lib (pending_result ?st)),
            final = ?st\<lparr>pending_result := JNull\<rparr>, waited = 30, served = replicate n no_content\<rparr>"
    by (rule do_POST_command)
  moreover have "CommandHandler_do_GET lib ''/command'' ?st =
           (\<lparr>status = 204, headers = cors_headers, body = []\<rparr>, ?st)"
    using poll_falsy [OF f, of lib] by (simp add: no_content_def)
  ultimately show ?thesis
    by (simp add: list_all_length no_content_def post_command_submit_def)
qed

theorem falsy_command_not_delivered_witness:
  "CommandHandler_do_GET example_lib ''/command'' (post_command_submit (JObject []) initial_state) =
     (\<lparr>status = 204, headers = cors_headers, body = []\<rparr>,
      post_command_submit (JObject []) initial_state)
   \<and> CommandHandler_do_POST example_lib
      \<lparr>path = ''/command'', content_length = None, rfile = []\<rparr>
      \<lparr>before_wait = [Poll], during_wait = [Tick, Act Poll], after_wait = []\<rparr> initial_state =
     \<lparr>outcome = Inr (command_response example_lib JNull),
      final = \<lparr>pending_command = JObject [], pending_result = JNull, result_event = False\<rparr>,
      waited = 30, served = [no_content, no_content]\<rparr>"
proof -
  let ?req = "\<lparr>path = ''/command'', content_length = None, rfile = []\<rparr>"
  let ?sched = "\<lparr>before_wait = [Poll], during_wait = [Tick, Act Poll], after_wait = []\<rparr>"
  have 1: "read_body example_lib ?req = Inr []" by (simp add: example_simps)
  have 2: "(if [] \<noteq> ([] :: pystr) then json_loads example_lib [] else Inr (JObject [])) =
             Inr (JObject [])"
    by simp
  have 3: "path ?req = ''/command''" by simp
  have 4: "\<not> truthy (JObject [])" by simp
  have 5: "list_all is_poll (actions_of ?sched)" by (simp add: actions_of_def)
  have 6: "CommandHandler_do_POST example_lib ?req ?sched initial_state =
     \<lparr>outcome = Inr (command_response example_lib JNull),
      final = \<lparr>pending_command = JObject [], pending_result = JNull, result_event = False\<rparr>,
      waited = 30, served = [no_content, no_content]\<rparr>"
    by (simp add: CommandHandler_do_POST_def command_wait_def CommandHandler_do_GET_def
        post_command_submit_def post_command_collect_def initial_state_def no_content_def
        example_simps)
  from falsy_command_not_delivered [OF 1 2 3 4 5, of initial_state] 6 show ?thesis by simp
qed

end
